theory Spec2Isabelle
  imports Main "HOL-Library.Word"
begin

section \<open>The syscall shim layer of libmcp (shims.h, shims.c)\<close>

text \<open>
  The library is seven one-line C functions. Each gives a variadic POSIX call
  (\<^verbatim>\<open>open\<close>, \<^verbatim>\<open>fcntl\<close>, \<^verbatim>\<open>ioctl\<close>) a fixed-arity signature. The native calls are
  not part of the repository: they are taken as a parameter, a record of three
  functions on the process state.
\<close>

subsection \<open>C values\<close>

text \<open>
  LP64 widths: \<^verbatim>\<open>int\<close> is 32 bits, \<^verbatim>\<open>long\<close> and \<^verbatim>\<open>unsigned long\<close> are 64 bits,
  a pointer is a 64-bit address (null is 0). \<^verbatim>\<open>mode_t\<close> comes from
  \<^verbatim>\<open><sys/types.h>\<close> and differs between platforms: it is the type parameter \<open>'m\<close>.
\<close>

type_synonym cint = "32 word"
type_synonym clong = "64 word"
type_synonym culong = "64 word"
type_synonym addr = "64 word"

text \<open>
  One argument in the variable part of a call, tagged with the C type the caller
  passes it at.
\<close>

datatype 'm va_arg =
    VA_mode 'm
  | VA_long clong
  | VA_flock_ptr addr
  | VA_void_ptr addr

subsection \<open>Process state and the native interface\<close>

text \<open>
  The state a call can change: the thread's \<^verbatim>\<open>errno\<close> and everything else
  (memory, descriptor table, file system) as \<open>world\<close>.
\<close>

record 'k process =
  errno :: cint
  world :: 'k

type_synonym 'k outcome = "cint \<times> 'k process"

text \<open>
  The prototypes of the native calls:
  \<^verbatim>\<open>int open(const char *, int, ...)\<close>,
  \<^verbatim>\<open>int fcntl(int, int, ...)\<close>,
  \<^verbatim>\<open>int ioctl(int, unsigned long, ...)\<close>.
  The list is the variable part of the argument list.
\<close>

record ('m, 'k) libc =
  c_open :: "addr \<Rightarrow> cint \<Rightarrow> 'm va_arg list \<Rightarrow> 'k process \<Rightarrow> 'k outcome"
  c_fcntl :: "cint \<Rightarrow> cint \<Rightarrow> 'm va_arg list \<Rightarrow> 'k process \<Rightarrow> 'k outcome"
  c_ioctl :: "cint \<Rightarrow> culong \<Rightarrow> 'm va_arg list \<Rightarrow> 'k process \<Rightarrow> 'k outcome"

subsection \<open>shims.c\<close>

text \<open>\<^verbatim>\<open>int open_int(const char *path, int oflag) { return open(path, oflag); }\<close>\<close>

definition open_int :: "('m, 'k) libc \<Rightarrow> addr \<Rightarrow> cint \<Rightarrow> 'k process \<Rightarrow> 'k outcome" where
  "open_int os path oflag = c_open os path oflag []"

text \<open>\<^verbatim>\<open>int open_int_mode(const char *path, int oflag, mode_t mode) { return open(path, oflag, mode); }\<close>\<close>

definition open_int_mode ::
  "('m, 'k) libc \<Rightarrow> addr \<Rightarrow> cint \<Rightarrow> 'm \<Rightarrow> 'k process \<Rightarrow> 'k outcome" where
  "open_int_mode os path oflag mode = c_open os path oflag [VA_mode mode]"

text \<open>\<^verbatim>\<open>int fcntl_int(int fildes, int cmd) { return fcntl(fildes, cmd); }\<close>\<close>

definition fcntl_int :: "('m, 'k) libc \<Rightarrow> cint \<Rightarrow> cint \<Rightarrow> 'k process \<Rightarrow> 'k outcome" where
  "fcntl_int os fildes cmd = c_fcntl os fildes cmd []"

text \<open>\<^verbatim>\<open>int fcntl_int_flock(int fildes, int cmd, struct flock* flock) { return fcntl(fildes, cmd, flock); }\<close>\<close>

definition fcntl_int_flock ::
  "('m, 'k) libc \<Rightarrow> cint \<Rightarrow> cint \<Rightarrow> addr \<Rightarrow> 'k process \<Rightarrow> 'k outcome" where
  "fcntl_int_flock os fildes cmd flock = c_fcntl os fildes cmd [VA_flock_ptr flock]"

text \<open>\<^verbatim>\<open>int fcntl_int_long(int fildes, int cmd, long arg) { return fcntl(fildes, cmd, arg); }\<close>\<close>

definition fcntl_int_long ::
  "('m, 'k) libc \<Rightarrow> cint \<Rightarrow> cint \<Rightarrow> clong \<Rightarrow> 'k process \<Rightarrow> 'k outcome" where
  "fcntl_int_long os fildes cmd arg = c_fcntl os fildes cmd [VA_long arg]"

text \<open>\<^verbatim>\<open>int ioctl_long(int fd, unsigned long request) { return ioctl(fd, request); }\<close>\<close>

definition ioctl_long :: "('m, 'k) libc \<Rightarrow> cint \<Rightarrow> culong \<Rightarrow> 'k process \<Rightarrow> 'k outcome" where
  "ioctl_long os fd request = c_ioctl os fd request []"

text \<open>\<^verbatim>\<open>int ioctl_long_void(int fd, unsigned long request, void* data) { return ioctl(fd, request, data); }\<close>\<close>

definition ioctl_long_void ::
  "('m, 'k) libc \<Rightarrow> cint \<Rightarrow> culong \<Rightarrow> addr \<Rightarrow> 'k process \<Rightarrow> 'k outcome" where
  "ioctl_long_void os fd request data = c_ioctl os fd request [VA_void_ptr data]"

subsection \<open>The direct calls the shims are compared with\<close>

text \<open>
  What a C caller writes when it calls the native function itself, named after
  the forms the specification speaks of.
\<close>

definition direct_open_two_arg ::
  "('m, 'k) libc \<Rightarrow> addr \<Rightarrow> cint \<Rightarrow> 'k process \<Rightarrow> 'k outcome" where
  "direct_open_two_arg os path oflag s = c_open os path oflag [] s"

definition direct_open_three_arg ::
  "('m, 'k) libc \<Rightarrow> addr \<Rightarrow> cint \<Rightarrow> 'm \<Rightarrow> 'k process \<Rightarrow> 'k outcome" where
  "direct_open_three_arg os path oflag mode s = c_open os path oflag [VA_mode mode] s"

definition direct_fcntl_flock ::
  "('m, 'k) libc \<Rightarrow> cint \<Rightarrow> cint \<Rightarrow> addr \<Rightarrow> 'k process \<Rightarrow> 'k outcome" where
  "direct_fcntl_flock os fildes cmd lock s = c_fcntl os fildes cmd [VA_flock_ptr lock] s"

definition direct_fcntl_long ::
  "('m, 'k) libc \<Rightarrow> cint \<Rightarrow> cint \<Rightarrow> clong \<Rightarrow> 'k process \<Rightarrow> 'k outcome" where
  "direct_fcntl_long os fildes cmd arg s = c_fcntl os fildes cmd [VA_long arg] s"

definition direct_ioctl_two_arg ::
  "('m, 'k) libc \<Rightarrow> cint \<Rightarrow> culong \<Rightarrow> 'k process \<Rightarrow> 'k outcome" where
  "direct_ioctl_two_arg os fd request s = c_ioctl os fd request [] s"

subsection \<open>The interface as a whole\<close>

text \<open>shims.h: the declared prototypes, in the order of the header.\<close>

datatype ctype =
    C_int
  | C_long
  | C_unsigned_long
  | C_mode_t
  | C_const_char_ptr
  | C_struct_flock_ptr
  | C_void_ptr

record prototype =
  ret :: ctype
  fname :: string
  params :: "ctype list"

definition shims_h :: "prototype list" where
  "shims_h =
    [\<lparr>ret = C_int, fname = ''open_int'', params = [C_const_char_ptr, C_int]\<rparr>,
     \<lparr>ret = C_int, fname = ''open_int_mode'', params = [C_const_char_ptr, C_int, C_mode_t]\<rparr>,
     \<lparr>ret = C_int, fname = ''fcntl_int'', params = [C_int, C_int]\<rparr>,
     \<lparr>ret = C_int, fname = ''fcntl_int_flock'', params = [C_int, C_int, C_struct_flock_ptr]\<rparr>,
     \<lparr>ret = C_int, fname = ''fcntl_int_long'', params = [C_int, C_int, C_long]\<rparr>,
     \<lparr>ret = C_int, fname = ''ioctl_long'', params = [C_int, C_unsigned_long]\<rparr>,
     \<lparr>ret = C_int, fname = ''ioctl_long_void'', params = [C_int, C_unsigned_long, C_void_ptr]\<rparr>]"

text \<open>A call of one of the declared functions by a foreign caller, with its arguments.\<close>

datatype 'm shim_call =
    Open_int addr cint
  | Open_int_mode addr cint 'm
  | Fcntl_int cint cint
  | Fcntl_int_flock cint cint addr
  | Fcntl_int_long cint cint clong
  | Ioctl_long cint culong
  | Ioctl_long_void cint culong addr

fun shim_name :: "'m shim_call \<Rightarrow> string" where
  "shim_name (Open_int path oflag) = ''open_int''"
| "shim_name (Open_int_mode path oflag mode) = ''open_int_mode''"
| "shim_name (Fcntl_int fildes cmd) = ''fcntl_int''"
| "shim_name (Fcntl_int_flock fildes cmd flock) = ''fcntl_int_flock''"
| "shim_name (Fcntl_int_long fildes cmd arg) = ''fcntl_int_long''"
| "shim_name (Ioctl_long fd request) = ''ioctl_long''"
| "shim_name (Ioctl_long_void fd request data) = ''ioctl_long_void''"

fun invoke :: "('m, 'k) libc \<Rightarrow> 'm shim_call \<Rightarrow> 'k process \<Rightarrow> 'k outcome" where
  "invoke os (Open_int path oflag) = open_int os path oflag"
| "invoke os (Open_int_mode path oflag mode) = open_int_mode os path oflag mode"
| "invoke os (Fcntl_int fildes cmd) = fcntl_int os fildes cmd"
| "invoke os (Fcntl_int_flock fildes cmd flock) = fcntl_int_flock os fildes cmd flock"
| "invoke os (Fcntl_int_long fildes cmd arg) = fcntl_int_long os fildes cmd arg"
| "invoke os (Ioctl_long fd request) = ioctl_long os fd request"
| "invoke os (Ioctl_long_void fd request data) = ioctl_long_void os fd request data"

text \<open>A call of a native function: its fixed arguments and the variable part.\<close>

datatype 'm native_call =
    Open addr cint "'m va_arg list"
  | Fcntl cint cint "'m va_arg list"
  | Ioctl cint culong "'m va_arg list"

fun perform :: "('m, 'k) libc \<Rightarrow> 'm native_call \<Rightarrow> 'k process \<Rightarrow> 'k outcome" where
  "perform os (Open path oflag va) = c_open os path oflag va"
| "perform os (Fcntl fildes cmd va) = c_fcntl os fildes cmd va"
| "perform os (Ioctl fd request va) = c_ioctl os fd request va"

text \<open>
  The table of the specification (section 4.1), row by row: the one native call
  each operation stands for.
\<close>

fun forwards_to :: "'m shim_call \<Rightarrow> 'm native_call" where
  "forwards_to (Open_int path oflag) = Open path oflag []"
| "forwards_to (Open_int_mode path oflag mode) = Open path oflag [VA_mode mode]"
| "forwards_to (Fcntl_int fildes cmd) = Fcntl fildes cmd []"
| "forwards_to (Fcntl_int_flock fildes cmd lock) = Fcntl fildes cmd [VA_flock_ptr lock]"
| "forwards_to (Fcntl_int_long fildes cmd arg) = Fcntl fildes cmd [VA_long arg]"
| "forwards_to (Ioctl_long fd request) = Ioctl fd request []"
| "forwards_to (Ioctl_long_void fd request data) = Ioctl fd request [VA_void_ptr data]"

subsection \<open>Observing the native calls a shim makes\<close>

text \<open>
  An instance of the native interface that does nothing but append each call it
  receives, with all its arguments, to a log, and return 0.
\<close>

definition recorder :: "('m, 'm native_call list) libc" where
  "recorder =
    \<lparr>c_open = (\<lambda>path oflag va s. (0, s\<lparr>world := world s @ [Open path oflag va]\<rparr>)),
     c_fcntl = (\<lambda>fildes cmd va s. (0, s\<lparr>world := world s @ [Fcntl fildes cmd va]\<rparr>)),
     c_ioctl = (\<lambda>fd request va s. (0, s\<lparr>world := world s @ [Ioctl fd request va]\<rparr>))\<rparr>"

definition recorded ::
  "('m native_call list process \<Rightarrow> 'm native_call list outcome) \<Rightarrow> 'm native_call list" where
  "recorded f = world (snd (f \<lparr>errno = 0, world = []\<rparr>))"

subsection \<open>The variable argument of open\<close>

text \<open>
  A native open takes its third argument from the variable part of the call, by
  \<^verbatim>\<open>va_arg(ap, mode_t)\<close>, and only when the flags ask for a mode (file creation).
  Which flags do is the platform's matter: the predicate \<open>needs_mode\<close> is a
  parameter. \<^verbatim>\<open>va_arg\<close> has a defined value only when the caller passed a next
  argument of that type.
\<close>

fun va_arg_mode :: "'m va_arg list \<Rightarrow> 'm option" where
  "va_arg_mode (VA_mode m # rest) = Some m"
| "va_arg_mode va = None"

datatype 'm mode_seen = Not_read | Read_mode 'm | Unspecified

fun mode_seen_by_native :: "(cint \<Rightarrow> bool) \<Rightarrow> 'm native_call \<Rightarrow> 'm mode_seen" where
  "mode_seen_by_native needs_mode (Open path oflag va) =
     (if needs_mode oflag
      then (case va_arg_mode va of Some m \<Rightarrow> Read_mode m | None \<Rightarrow> Unspecified)
      else Not_read)"
| "mode_seen_by_native needs_mode (Fcntl fildes cmd va) = Not_read"
| "mode_seen_by_native needs_mode (Ioctl fd request va) = Not_read"

fun fully_defined :: "'m mode_seen \<Rightarrow> bool" where
  "fully_defined Unspecified = False"
| "fully_defined seen = True"

subsection \<open>Raw passthrough\<close>

text \<open>
  What it means for a shim's outcome to be the native call's raw outcome: the
  same return value, the same \<^verbatim>\<open>errno\<close> and the same remaining state, and
  in particular \<open>-1\<close> with the native \<^verbatim>\<open>errno\<close> when the native call failed.
\<close>

definition raw_outcome :: "'k outcome \<Rightarrow> 'k outcome \<Rightarrow> bool" where
  "raw_outcome shim native \<longleftrightarrow>
     fst shim = fst native \<and>
     errno (snd shim) = errno (snd native) \<and>
     world (snd shim) = world (snd native) \<and>
     (fst native = - 1 \<longrightarrow> fst shim = - 1 \<and> errno (snd shim) = errno (snd native))"

subsection \<open>A small native interface to run the shims on\<close>

text \<open>
  A concrete instance of the native interface, small enough to evaluate: memory
  holds some C strings, the file system is a list of absolute names, each a
  directory or a regular file, and descriptors are handed out from 3 upwards.
  Opening a name that exists succeeds. A name that does not exist gives \<open>-1\<close>:
  with error code 20 (\<^verbatim>\<open>ENOTDIR\<close> on Linux and Darwin) when the name continues,
  after a slash, the name of a regular file, and with error code 2 (\<^verbatim>\<open>ENOENT\<close>
  on Linux and Darwin) otherwise. A pointer to no string gives \<open>-1\<close> with error
  code 14 (\<^verbatim>\<open>EFAULT\<close>). \<^verbatim>\<open>fcntl\<close> and \<^verbatim>\<open>ioctl\<close> return 0 on an open descriptor
  and \<open>-1\<close> with error code 9 (\<^verbatim>\<open>EBADF\<close>) on any other. Nothing is ever created.
\<close>

datatype entry_kind = Regular | Directory

record demo_world =
  strings :: "(addr \<times> string) list"
  entries :: "(string \<times> entry_kind) list"
  open_fds :: "cint list"


definition under_regular_file :: "(string \<times> entry_kind) list \<Rightarrow> string \<Rightarrow> bool" where
  "under_regular_file es name =
     list_ex (\<lambda>(e, k). k = Regular \<and> take (length e + 1) name = e @ ''/'') es"

definition demo_open ::
  "addr \<Rightarrow> cint \<Rightarrow> 32 word va_arg list \<Rightarrow> demo_world process \<Rightarrow> demo_world outcome" where
  "demo_open path oflag va s =
     (case map_of (strings (world s)) path of
        None \<Rightarrow> (- 1, s\<lparr>errno := 14\<rparr>)
      | Some name \<Rightarrow>
          (case map_of (entries (world s)) name of
             Some kind \<Rightarrow>
               (let fd = 3 + of_nat (length (open_fds (world s)))
                in (fd, s\<lparr>world := (world s)\<lparr>open_fds := open_fds (world s) @ [fd]\<rparr>\<rparr>))
           | None \<Rightarrow>
               if under_regular_file (entries (world s)) name
               then (- 1, s\<lparr>errno := 20\<rparr>)
               else (- 1, s\<lparr>errno := 2\<rparr>)))"

definition demo_fcntl ::
  "cint \<Rightarrow> cint \<Rightarrow> 32 word va_arg list \<Rightarrow> demo_world process \<Rightarrow> demo_world outcome" where
  "demo_fcntl fildes cmd va s =
     (if fildes \<in> set (open_fds (world s)) then (0, s) else (- 1, s\<lparr>errno := 9\<rparr>))"

definition demo_ioctl ::
  "cint \<Rightarrow> culong \<Rightarrow> 32 word va_arg list \<Rightarrow> demo_world process \<Rightarrow> demo_world outcome" where
  "demo_ioctl fd request va s =
     (if fd \<in> set (open_fds (world s)) then (0, s) else (- 1, s\<lparr>errno := 9\<rparr>))"

definition demo_os :: "(32 word, demo_world) libc" where
  "demo_os = \<lparr>c_open = demo_open, c_fcntl = demo_fcntl, c_ioctl = demo_ioctl\<rparr>"

text \<open>
  A starting state: the directories \<^verbatim>\<open>/\<close> and \<^verbatim>\<open>/etc\<close> and the regular file
  \<^verbatim>\<open>/etc/hosts\<close> exist. Memory holds the strings \<^verbatim>\<open>"/etc/hosts"\<close> at address
  0x1000, \<^verbatim>\<open>"/nonexistent"\<close> at 0x2000 and \<^verbatim>\<open>"/etc/hosts/x"\<close> at 0x3000; the last
  two name no entry. No descriptor is open and \<^verbatim>\<open>errno\<close> is 0.
\<close>

definition demo_start :: "demo_world process" where
  "demo_start =
     \<lparr>errno = 0,
      world = \<lparr>strings = [(0x1000, ''/etc/hosts''), (0x2000, ''/nonexistent''),
                          (0x3000, ''/etc/hosts/x'')],
               entries = [(''/'', Directory), (''/etc'', Directory),
                          (''/etc/hosts'', Regular)],
               open_fds = []\<rparr>\<rparr>"

section \<open>Properties\<close>

subsection \<open>Auxiliary facts\<close>

lemmas shim_defs =
  open_int_def open_int_mode_def fcntl_int_def fcntl_int_flock_def
  fcntl_int_long_def ioctl_long_def ioctl_long_void_def

lemma raw_outcome_refl: "raw_outcome r r"
  by (simp add: raw_outcome_def)

lemma invoke_forwards: "invoke os c s = perform os (forwards_to c) s"
  by (cases c) (simp_all add: shim_defs)

lemma recorded_perform: "recorded (perform recorder n) = [n]"
  by (cases n) (simp_all add: recorded_def recorder_def)

lemma shims_h_names:
  "map fname shims_h =
     [''open_int'', ''open_int_mode'', ''fcntl_int'', ''fcntl_int_flock'',
      ''fcntl_int_long'', ''ioctl_long'', ''ioctl_long_void'']"
  by (simp add: shims_h_def)

lemma shim_name_declared: "shim_name c \<in> set (map fname shims_h)"
  unfolding shims_h_names by (cases c) simp_all

lemma declared_has_call:
  "set (map fname shims_h) \<subseteq> range (shim_name :: 'm shim_call \<Rightarrow> string)"
proof -
  obtain m :: 'm where True by simp
  have "set (map fname shims_h) =
      shim_name ` {Open_int 0 0, Open_int_mode 0 0 m, Fcntl_int 0 0, Fcntl_int_flock 0 0 0,
                   Fcntl_int_long 0 0 0, Ioctl_long 0 0, Ioctl_long_void 0 0 0}"
    unfolding shims_h_names by simp
  then show ?thesis by blast
qed

lemma range_shim_name:
  "range (shim_name :: 'm shim_call \<Rightarrow> string) = set (map fname shims_h)"
  using declared_has_call shim_name_declared by blast

lemma distinct_names: "distinct (map fname shims_h)"
  unfolding shims_h_names by simp

lemma demo_open_missing:
  "c_open demo_os 0x2000 0 [] demo_start = (- 1, demo_start\<lparr>errno := 2\<rparr>)"
  by (simp add: demo_os_def demo_open_def demo_start_def under_regular_file_def)




lemma open_int_mode_supplies_mode:
  "map (mode_seen_by_native needs_mode) (recorded (open_int_mode recorder path oflag mode)) =
     [if needs_mode oflag then Read_mode mode else Not_read]"
  by (simp add: open_int_mode_def recorded_def recorder_def)

subsection \<open>Error signalling\<close>

text \<open>
  C1. Each of the seven shims (\<open>open_int\<close>, \<open>open_int_mode\<close>, \<open>fcntl_int\<close>,
  \<open>fcntl_int_flock\<close>, \<open>fcntl_int_long\<close>, \<open>ioctl_long\<close>, \<open>ioctl_long_void\<close>), on
  every argument tuple and in every process state, returns the return value of
  the native call it makes (so \<open>-1\<close> when that call failed) and leaves \<^verbatim>\<open>errno\<close>,
  and the rest of the state, as the native call left them: the shim adds,
  translates, wraps and swallows nothing.
\<close>

theorem shims_return_raw_outcome:
  "raw_outcome (open_int os path oflag s) (c_open os path oflag [] s) \<and>
   raw_outcome (open_int_mode os path oflag mode s) (c_open os path oflag [VA_mode mode] s) \<and>
   raw_outcome (fcntl_int os fildes cmd s) (c_fcntl os fildes cmd [] s) \<and>
   raw_outcome (fcntl_int_flock os fildes cmd flock s)
     (c_fcntl os fildes cmd [VA_flock_ptr flock] s) \<and>
   raw_outcome (fcntl_int_long os fildes cmd arg s) (c_fcntl os fildes cmd [VA_long arg] s) \<and>
   raw_outcome (ioctl_long os fd request s) (c_ioctl os fd request [] s) \<and>
   raw_outcome (ioctl_long_void os fd request data s)
     (c_ioctl os fd request [VA_void_ptr data] s)"
  by (simp add: shim_defs raw_outcome_refl)

text \<open>
  On the small native interface: the native open of \<^verbatim>\<open>"/nonexistent"\<close> fails, and
  so \<open>open_int\<close> returns \<open>-1\<close> with the native error code 2.
\<close>

theorem shims_return_raw_outcome_witness:
  "fst (c_open demo_os 0x2000 0 [] demo_start) = - 1 \<and>
   fst (open_int demo_os 0x2000 0 demo_start) = - 1 \<and>
   errno (snd (open_int demo_os 0x2000 0 demo_start)) = 2"
proof -
  have native: "fst (c_open demo_os 0x2000 0 [] demo_start) = - 1"
    and code: "errno (snd (c_open demo_os 0x2000 0 [] demo_start)) = 2"
    by (simp_all add: demo_open_missing)
  have "raw_outcome (open_int demo_os 0x2000 0 demo_start)
          (c_open demo_os 0x2000 0 [] demo_start)"
    using shims_return_raw_outcome [of demo_os "0x2000" 0 demo_start] by blast
  with native code show ?thesis
    by (simp add: raw_outcome_def)
qed

subsection \<open>The size of the interface\<close>

text \<open>
  C2, as the specification states it: the layer exposes exactly six operations.
  The header declares seven prototypes, with seven different names.
\<close>

theorem shim_layer_not_six_operations:
  "length shims_h \<noteq> 6 \<and> card (set (map fname shims_h)) \<noteq> 6"
  using distinct_card [OF distinct_names] by (simp add: shims_h_def)

text \<open>
  C2, amended. The layer exposes exactly seven operations: the header declares
  seven prototypes with different names, they are the names of the seven
  functions a caller can invoke, and every invocation, whatever its arguments
  and the state, is a direct and unconditional forward to one native call: its
  outcome is that call's outcome, and that call is the only one made.
\<close>

theorem shim_layer_seven_forwards:
  "length shims_h = 7 \<and>
   distinct (map fname shims_h) \<and>
   range (shim_name :: 'm shim_call \<Rightarrow> string) = set (map fname shims_h) \<and>
   invoke os (c :: 'm shim_call) s = perform os (forwards_to c) s \<and>
   recorded (invoke recorder c) = [forwards_to c]"
proof -
  have "length shims_h = 7" by (simp add: shims_h_def)
  moreover have "invoke recorder c = perform recorder (forwards_to c)"
    by (rule ext) (rule invoke_forwards)
  ultimately show ?thesis
    by (simp add: distinct_names range_shim_name invoke_forwards recorded_perform)
qed

subsection \<open>Each shim against the direct call\<close>

text \<open>
  C3. For every path and every flags value, \<open>open_int path flags\<close> gives the
  result of the two-argument form of the native open with the same path and
  flags: the same return value and the same process state after the call.
\<close>

theorem open_int_is_two_arg_open:
  "open_int os path oflag s = direct_open_two_arg os path oflag s"
  by (simp add: open_int_def direct_open_two_arg_def)

text \<open>
  C4. For every path, flags value and mode, \<open>open_int_mode path flags mode\<close>
  gives the result of the three-argument form of the native open with the same
  three arguments.
\<close>

theorem open_int_mode_is_three_arg_open:
  "open_int_mode os path oflag mode s = direct_open_three_arg os path oflag mode s"
  by (simp add: open_int_mode_def direct_open_three_arg_def)

text \<open>
  C5. For every descriptor, command and lock-record pointer,
  \<open>fcntl_int_flock descriptor command lock\<close> gives the result of the native
  fcntl called with the same descriptor and command and the identical pointer:
  the one native call made carries the address the shim received, and the shim
  itself touches no memory.
\<close>

theorem fcntl_int_flock_is_fcntl_with_lock:
  "fcntl_int_flock os fildes cmd lock s = direct_fcntl_flock os fildes cmd lock s \<and>
   recorded (fcntl_int_flock recorder fildes cmd lock) = [Fcntl fildes cmd [VA_flock_ptr lock]]"
  by (simp add: fcntl_int_flock_def direct_fcntl_flock_def recorded_def recorder_def)

text \<open>
  C6. For every descriptor, command and long-integer argument,
  \<open>fcntl_int_long descriptor command arg\<close> gives the result of the native fcntl
  called with the same long-integer argument.
\<close>

theorem fcntl_int_long_is_fcntl_with_long:
  "fcntl_int_long os fildes cmd arg s = direct_fcntl_long os fildes cmd arg s"
  by (simp add: fcntl_int_long_def direct_fcntl_long_def)

text \<open>
  C7. For every descriptor and every unsigned-long request code,
  \<open>ioctl_long descriptor request\<close> gives the result of the native ioctl called
  with those two arguments and no third argument.
\<close>

theorem ioctl_long_is_two_arg_ioctl:
  "ioctl_long os fd request s = direct_ioctl_two_arg os fd request s"
  by (simp add: ioctl_long_def direct_ioctl_two_arg_def)

subsection \<open>Opening a path that names nothing\<close>



subsection \<open>What the shims do not do\<close>

text \<open>
  C9. \<open>open_int\<close> always calls the native open with exactly two arguments, the
  variable part of the call empty, so it never supplies a mode. Hence for every
  flags value that requires a mode, the mode the native open takes from the
  variable part is unspecified, and the call is fully defined exactly when the
  flags do not require a mode.
\<close>

theorem open_int_supplies_no_mode:
  "open_int os path oflag s = c_open os path oflag [] s \<and>
   recorded (open_int recorder path oflag) = [Open path oflag []] \<and>
   map (mode_seen_by_native needs_mode) (recorded (open_int recorder path oflag)) =
     [if needs_mode oflag then Unspecified else Not_read] \<and>
   (list_all fully_defined
      (map (mode_seen_by_native needs_mode) (recorded (open_int recorder path oflag)))
    \<longleftrightarrow> \<not> needs_mode oflag)"
proof -
  have log: "recorded (open_int recorder path oflag) = [Open path oflag []]"
    by (simp add: open_int_def recorded_def recorder_def)
  show ?thesis
    unfolding log by (simp add: open_int_def)
qed

text \<open>
  C10. \<open>fcntl_int_flock\<close> and \<open>ioctl_long_void\<close> do not validate their pointer
  argument: for every pointer value, the null pointer (address 0) included, the
  one native call made carries that pointer unchanged, and the outcome (return
  value, \<^verbatim>\<open>errno\<close>, state) is the native call's own, so a rejection of the
  pointer can only be the native call's.
\<close>

theorem pointer_shims_forward_verbatim:
  "fcntl_int_flock os fildes cmd flock s = c_fcntl os fildes cmd [VA_flock_ptr flock] s \<and>
   ioctl_long_void os fd request data s = c_ioctl os fd request [VA_void_ptr data] s \<and>
   fcntl_int_flock os fildes cmd 0 s = c_fcntl os fildes cmd [VA_flock_ptr 0] s \<and>
   ioctl_long_void os fd request 0 s = c_ioctl os fd request [VA_void_ptr 0] s \<and>
   recorded (fcntl_int_flock recorder fildes cmd flock) =
     [Fcntl fildes cmd [VA_flock_ptr flock]] \<and>
   recorded (ioctl_long_void recorder fd request data) =
     [Ioctl fd request [VA_void_ptr data]]"
  by (simp add: fcntl_int_flock_def ioctl_long_void_def recorded_def recorder_def)

end
